theory Spec2Isabelle
  imports Complex_Main "HOL-Library.Sublist" "HOL-Library.AList"
begin

section \<open>Strings of the JavaScript runtime\<close>

text \<open>
  A JavaScript string is a sequence of UTF-16 code units. The model covers the strings
  whose code units are all below 0x100 (ASCII and the Latin-1 supplement): a
  \<^typ>\<open>char\<close> is one code unit, \<^const>\<open>length\<close> is \<^verbatim>\<open>.length\<close>.
\<close>

text \<open>
  \<^verbatim>\<open>String.prototype.toLowerCase\<close> on one code unit below 0x100: the letters A-Z
  (0x41-0x5A) and the Latin-1 capitals (0xC0-0xDE without the multiplication sign 0xD7)
  move to their small forms, 0x20 higher, which sets the bit of value 0x20; every other
  code unit stays. The \<^verbatim>\<open>i\<close> flag of a regular expression identifies the same pairs
  of code units in this range.
\<close>

definition is_capital :: "char \<Rightarrow> bool" where
  "is_capital c =
     (let n = (of_char c :: nat)
      in (65 \<le> n \<and> n \<le> 90) \<or> (192 \<le> n \<and> n \<le> 222 \<and> n \<noteq> 215))"

fun toLowerCase_char :: "char \<Rightarrow> char" where
  "toLowerCase_char (Char b0 b1 b2 b3 b4 b5 b6 b7) =
     (if is_capital (Char b0 b1 b2 b3 b4 b5 b6 b7) then Char b0 b1 b2 b3 b4 True b6 b7
      else Char b0 b1 b2 b3 b4 b5 b6 b7)"

definition toLowerCase :: "string \<Rightarrow> string" where
  "toLowerCase s = map toLowerCase_char s"

text \<open>The class \<^verbatim>\<open>\s\<close> and the characters \<^verbatim>\<open>trim()\<close> removes, below 0x100.\<close>

definition is_space :: "char \<Rightarrow> bool" where
  "is_space c =
     (c \<in> set [CHR 0x09, CHR 0x0A, CHR 0x0B, CHR 0x0C, CHR 0x0D, CHR 0x20, CHR 0xA0])"

text \<open>The class \<^verbatim>\<open>[.!?]\<close>.\<close>

definition is_terminator :: "char \<Rightarrow> bool" where
  "is_terminator c = (c \<in> set ''.!?'')"

text \<open>\<^verbatim>\<open>s.includes(t)\<close>: \<open>t\<close> occurs in \<open>s\<close> as a contiguous block.\<close>

definition js_includes :: "string \<Rightarrow> string \<Rightarrow> bool" where
  "js_includes s t = sublist t s"

text \<open>\<^verbatim>\<open>s.trim()\<close>.\<close>

definition trim :: "string \<Rightarrow> string" where
  "trim s = rev (dropWhile is_space (rev (dropWhile is_space s)))"

text \<open>\<^verbatim>\<open>parts.join(sep)\<close>.\<close>

fun js_join :: "string \<Rightarrow> string list \<Rightarrow> string" where
  "js_join sep [] = []"
| "js_join sep [x] = x"
| "js_join sep (x # y # ys) = x @ sep @ js_join sep (y # ys)"

text \<open>
  \<^verbatim>\<open>s.split(re)\<close> for a regular expression that never matches the empty string. The
  runtime tries the expression at each position from the left; on a match it closes the
  piece collected so far, jumps behind the match and starts a new piece; the rest of the
  string is the last piece. The expression is given as a function from the code unit
  before the position (for a lookbehind) and the rest of the string to the length of its
  match there, 0 when it does not match. \<open>skip\<close> counts the code units of a match still
  to be passed.
\<close>

type_synonym separator = "char option \<Rightarrow> string \<Rightarrow> nat"

fun split_loop :: "separator \<Rightarrow> char option \<Rightarrow> nat \<Rightarrow> string \<Rightarrow> string \<Rightarrow> string list" where
  "split_loop m prev skip piece [] = [piece]"
| "split_loop m prev skip piece (c # cs) =
     (if 0 < skip then split_loop m (Some c) (skip - 1) piece cs
      else case m prev (c # cs) of
             0 \<Rightarrow> split_loop m (Some c) 0 (piece @ [c]) cs
           | Suc n \<Rightarrow> piece # split_loop m (Some c) n [] cs)"

definition js_split :: "separator \<Rightarrow> string \<Rightarrow> string list" where
  "js_split m s = split_loop m None 0 [] s"

text \<open>The separators of the program: \<^verbatim>\<open>/\s+/\<close>, \<^verbatim>\<open>/[.!?]+/\<close>, \<^verbatim>\<open>/[.!?]/\<close>,
  \<^verbatim>\<open>/\n\n/\<close>, \<^verbatim>\<open>/\n\n+/\<close> and \<^verbatim>\<open>/(?<=[.!?])\s+/\<close>.\<close>

definition re_spaces :: separator where
  "re_spaces prev s = length (takeWhile is_space s)"

definition re_terminators :: separator where
  "re_terminators prev s = length (takeWhile is_terminator s)"

definition re_terminator :: separator where
  "re_terminator prev s = (case s of [] \<Rightarrow> 0 | c # _ \<Rightarrow> if is_terminator c then 1 else 0)"

definition re_blank_line :: separator where
  "re_blank_line prev s = (if prefix [CHR 0x0A, CHR 0x0A] s then 2 else 0)"

definition re_blank_lines :: separator where
  "re_blank_lines prev s =
     (if prefix [CHR 0x0A, CHR 0x0A] s then length (takeWhile (\<lambda>c. c = CHR 0x0A) s) else 0)"

definition re_sentence_gap :: separator where
  "re_sentence_gap prev s =
     (case prev of
        None \<Rightarrow> 0
      | Some p \<Rightarrow> if is_terminator p then length (takeWhile is_space s) else 0)"

text \<open>
  \<^verbatim>\<open>/w1|w2|.../i.test(s)\<close> for alternatives \<open>ws\<close> written in small ASCII letters:
  one of them occurs in \<open>s\<close>, letter case ignored.
\<close>

definition test_words :: "string list \<Rightarrow> string \<Rightarrow> bool" where
  "test_words ws s = list_ex (\<lambda>w. sublist w (toLowerCase s)) ws"

text \<open>
  \<^verbatim>\<open>(s.match(re) || []).length\<close> for the global, case-insensitive expression that
  matches the text \<open>k\<close> literally: the matches are found from the left, each search
  starting behind the previous match (one code unit further after an empty match).
  \<open>count_from\<close> works on the two texts in small letters; \<open>skip\<close> counts the code units
  of a match still to be passed.
\<close>

fun count_from :: "string \<Rightarrow> nat \<Rightarrow> string \<Rightarrow> nat" where
  "count_from k skip [] = (if skip = 0 \<and> k = [] then 1 else 0)"
| "count_from k skip (c # cs) =
     (if 0 < skip then count_from k (skip - 1) cs
      else if prefix k (c # cs) then 1 + count_from k (length k - 1) cs
      else count_from k 0 cs)"

definition count_matches :: "string \<Rightarrow> string \<Rightarrow> nat" where
  "count_matches k s = count_from (toLowerCase k) 0 (toLowerCase s)"

section \<open>Numbers of the JavaScript runtime\<close>

text \<open>
  A JavaScript number is a finite value, NaN or an infinity. Finite values are modelled
  as exact reals: the rounding of IEEE 754 doubles and the sign of zero are not part of
  the model.
\<close>

datatype js_num = Num real | NaN | PosInf | NegInf

fun js_neg :: "js_num \<Rightarrow> js_num" where
  "js_neg (Num a) = Num (- a)"
| "js_neg NaN = NaN"
| "js_neg PosInf = NegInf"
| "js_neg NegInf = PosInf"

fun js_add :: "js_num \<Rightarrow> js_num \<Rightarrow> js_num" where
  "js_add NaN y = NaN"
| "js_add x NaN = NaN"
| "js_add (Num a) (Num b) = Num (a + b)"
| "js_add PosInf NegInf = NaN"
| "js_add NegInf PosInf = NaN"
| "js_add (Num a) y = y"
| "js_add x y = x"

definition js_sub :: "js_num \<Rightarrow> js_num \<Rightarrow> js_num" where
  "js_sub x y = js_add x (js_neg y)"

fun js_mul :: "js_num \<Rightarrow> js_num \<Rightarrow> js_num" where
  "js_mul NaN y = NaN"
| "js_mul x NaN = NaN"
| "js_mul (Num a) (Num b) = Num (a * b)"
| "js_mul (Num a) y = (if a = 0 then NaN else if 0 < a then y else js_neg y)"
| "js_mul x (Num b) = (if b = 0 then NaN else if 0 < b then x else js_neg x)"
| "js_mul PosInf y = y"
| "js_mul NegInf y = js_neg y"

fun js_div :: "js_num \<Rightarrow> js_num \<Rightarrow> js_num" where
  "js_div NaN y = NaN"
| "js_div x NaN = NaN"
| "js_div (Num a) (Num b) =
     (if b = 0 then (if a = 0 then NaN else if 0 < a then PosInf else NegInf)
      else Num (a / b))"
| "js_div (Num a) y = Num 0"
| "js_div x (Num b) = (if 0 \<le> b then x else js_neg x)"
| "js_div x y = NaN"

text \<open>\<^verbatim>\<open>x < y\<close> and \<^verbatim>\<open>x >= y\<close>: every comparison with NaN is false.\<close>

fun js_lt :: "js_num \<Rightarrow> js_num \<Rightarrow> bool" where
  "js_lt NaN y = False"
| "js_lt x NaN = False"
| "js_lt (Num a) (Num b) = (a < b)"
| "js_lt x NegInf = False"
| "js_lt PosInf y = False"
| "js_lt x y = True"

definition js_gt :: "js_num \<Rightarrow> js_num \<Rightarrow> bool" where
  "js_gt x y = js_lt y x"

definition js_ge :: "js_num \<Rightarrow> js_num \<Rightarrow> bool" where
  "js_ge x y = (x \<noteq> NaN \<and> y \<noteq> NaN \<and> \<not> js_lt x y)"

text \<open>\<^verbatim>\<open>Math.round\<close> rounds to the nearest integer, a half upwards.\<close>

fun Math_round :: "js_num \<Rightarrow> js_num" where
  "Math_round (Num a) = Num (of_int \<lfloor>a + 1 / 2\<rfloor>)"
| "Math_round x = x"

text \<open>The decimal digits of a natural number.\<close>

fun digits :: "nat \<Rightarrow> string" where
  "digits n = (if n < 10 then [''0123456789'' ! n]
               else digits (n div 10) @ [''0123456789'' ! (n mod 10)])"

text \<open>
  \<^verbatim>\<open>x.toFixed(2)\<close>: the integer nearest to \<open>100 x\<close> (of two, the larger), printed with
  its last two digits behind the point and at least one digit before it. A number of
  \<open>10\<^sup>2\<^sup>1\<close> and more, which the runtime prints in exponent notation, needs a script
  longer than a JavaScript string can be; the model prints it the same way as the others.
\<close>

definition fixed2 :: "real \<Rightarrow> string" where
  "fixed2 x =
     (let n = nat \<lfloor>x * 100 + 1 / 2\<rfloor>
      in digits (n div 100) @ ''.'' @ [''0123456789'' ! (n mod 100 div 10), ''0123456789'' ! (n mod 10)])"

fun toFixed2 :: "js_num \<Rightarrow> string" where
  "toFixed2 (Num x) = (if x < 0 then ''-'' @ fixed2 (- x) else fixed2 x)"
| "toFixed2 NaN = ''NaN''"
| "toFixed2 PosInf = ''Infinity''"
| "toFixed2 NegInf = ''-Infinity''"

text \<open>
  The number a string denotes (\<^verbatim>\<open>parseFloat\<close>, and the conversion of the operands of
  \<^verbatim>\<open>-\<close>). The program applies both to the keywordDensity of a metrics object only,
  which \<^verbatim>\<open>toFixed\<close> has printed: an optional sign, then \<^verbatim>\<open>Infinity\<close> or digits, a
  point and digits, or \<^verbatim>\<open>NaN\<close>. On these strings the two conversions agree; the model
  reads them, and gives NaN for every other text.
\<close>

definition digit_value :: "char \<Rightarrow> nat" where
  "digit_value c = length (takeWhile (\<lambda>d. d \<noteq> c) ''0123456789'')"

definition decimal_value :: "string \<Rightarrow> nat" where
  "decimal_value ds = foldl (\<lambda>n c. 10 * n + digit_value c) 0 ds"

definition parse_unsigned :: "string \<Rightarrow> js_num" where
  "parse_unsigned s =
     (if s = ''Infinity'' then PosInf
      else let ip = takeWhile (\<lambda>c. c \<in> set ''0123456789'') s;
               r = drop (length ip) s
           in case r of
                [] \<Rightarrow> (if ip = [] then NaN else Num (real (decimal_value ip)))
              | c # fp \<Rightarrow>
                  if c = CHR ''.'' \<and> ip \<noteq> [] \<and> fp \<noteq> [] \<and> list_all (\<lambda>c. c \<in> set ''0123456789'') fp
                  then Num (real (decimal_value ip) + real (decimal_value fp) / 10 ^ length fp)
                  else NaN)"

definition parseFloat :: "string \<Rightarrow> js_num" where
  "parseFloat s =
     (case s of
        [] \<Rightarrow> NaN
      | c # cs \<Rightarrow> if c = CHR ''-'' then js_neg (parse_unsigned cs) else parse_unsigned s)"

section \<open>The syllable heuristic\<close>

text \<open>
  The loop of \<^verbatim>\<open>countSyllables\<close> over the characters of the word, with its two
  variables \<^verbatim>\<open>count\<close> and \<^verbatim>\<open>prevWasVowel\<close>.
\<close>

fun vowel_groups :: "int \<Rightarrow> bool \<Rightarrow> string \<Rightarrow> int" where
  "vowel_groups count prevWasVowel [] = count"
| "vowel_groups count prevWasVowel (c # cs) =
     (let isVowel = (c \<in> set ''aeiouy'')
      in vowel_groups (if isVowel \<and> \<not> prevWasVowel then count + 1 else count) isVowel cs)"

definition endsWith_e :: "string \<Rightarrow> bool" where
  "endsWith_e word = (case rev word of [] \<Rightarrow> False | c # _ \<Rightarrow> c = CHR ''e'')"

definition countSyllables :: "string \<Rightarrow> int" where
  "countSyllables w =
     (let word = filter (\<lambda>c. c \<in> set ''abcdefghijklmnopqrstuvwxyz'') (toLowerCase w)
      in if length word \<le> 3 then 1
         else let count = vowel_groups 0 False word;
                  count = (if endsWith_e word then count - 1 else count)
              in max 1 count)"

section \<open>Metrics\<close>

record readability =
  score :: js_num
  level :: string

text \<open>
  The local \<^verbatim>\<open>score\<close> of \<^verbatim>\<open>calculateReadability\<close>, before it is rounded:
  \<^verbatim>\<open>206.835 - (1.015 * avgWordsPerSentence) - (84.6 * avgSyllables)\<close>.
\<close>

definition readability_score :: "string \<Rightarrow> js_num" where
  "readability_score script =
     (let words = filter (\<lambda>w. 0 < length w) (js_split re_spaces script);
          sentences = filter (\<lambda>s. 0 < length (trim s)) (js_split re_terminators script);
          avgWordsPerSentence = js_div (Num (real (length words))) (Num (real (length sentences)));
          avgSyllables =
            js_div (Num (real_of_int (foldl (\<lambda>sum word. sum + countSyllables word) 0 words)))
              (Num (real (length words)))
      in js_sub (js_sub (Num 206.835) (js_mul (Num 1.015) avgWordsPerSentence))
           (js_mul (Num 84.6) avgSyllables))"

definition readability_level :: "js_num \<Rightarrow> string" where
  "readability_level s =
     (if js_ge s (Num 80) then ''very easy''
      else if js_ge s (Num 60) then ''easy''
      else if js_ge s (Num 40) then ''moderate''
      else if js_ge s (Num 20) then ''difficult''
      else ''very difficult'')"

definition calculateReadability :: "string \<Rightarrow> readability" where
  "calculateReadability script =
     (let s = readability_score script
      in \<lparr>score = Math_round s, level = readability_level s\<rparr>)"

record engagement_elements =
  hasQuestion :: bool
  hasCallToAction :: bool
  hasHook :: bool
  questionCount :: nat

record analysis =
  wordCount :: nat
  sentenceCount :: nat
  paragraphCount :: nat
  averageSentenceLength :: js_num
  estimatedDuration :: string
  keywordsFound :: nat
  keywordOccurrences :: "(string \<times> nat) list"
  totalKeywordMentions :: nat
  keywordDensity :: string
  engagementElements :: engagement_elements
  readabilityScore :: readability

text \<open>
  \<^verbatim>\<open>obj[key] = value\<close> on an object literal, the object given by its own properties.
  The key \<^verbatim>\<open>__proto__\<close> names the prototype accessor, whose setter ignores a number:
  no property is created.
\<close>

definition set_property :: "(string \<times> 'a) list \<Rightarrow> string \<Rightarrow> 'a \<Rightarrow> (string \<times> 'a) list" where
  "set_property obj k v = (if k = ''__proto__'' then obj else AList.update k v obj)"

text \<open>
  The body of the \<^verbatim>\<open>keywords.forEach\<close> of \<^verbatim>\<open>analyzeScript\<close>, on the pair of
  \<^verbatim>\<open>keywordCount\<close> and \<^verbatim>\<open>keywordOccurrences\<close>. The expression is built from the
  keyword with every syntax character escaped, so it matches the keyword literally.
\<close>

definition count_keyword :: "string \<Rightarrow> nat \<times> (string \<times> nat) list \<Rightarrow> string \<Rightarrow> nat \<times> (string \<times> nat) list" where
  "count_keyword script st keyword =
     (let count = count_matches keyword script
      in if 0 < count then (fst st + count, set_property (snd st) keyword count) else st)"

definition analyzeScript :: "string \<Rightarrow> string list \<Rightarrow> analysis" where
  "analyzeScript script keywords =
     (let words = filter (\<lambda>w. 0 < length w) (js_split re_spaces script);
          sentences = filter (\<lambda>s. 0 < length (trim s)) (js_split re_terminators script);
          paragraphs = filter (\<lambda>p. 0 < length (trim p)) (js_split re_blank_lines script);
          counted = foldl (count_keyword script) (0, []) keywords;
          keywordCount = fst counted;
          occurrences = snd counted;
          duration = nat \<lceil>real (length words) / 150\<rceil>
      in \<lparr>wordCount = length words,
          sentenceCount = length sentences,
          paragraphCount = length paragraphs,
          averageSentenceLength =
            Math_round (js_div (Num (real (length words))) (Num (real (length sentences)))),
          estimatedDuration = digits duration @ '' minutes'',
          keywordsFound = length occurrences,
          keywordOccurrences = occurrences,
          totalKeywordMentions = keywordCount,
          keywordDensity =
            toFixed2 (js_mul (js_div (Num (real keywordCount)) (Num (real (length words)))) (Num 100)),
          engagementElements =
            \<lparr>hasQuestion = (CHR ''?'' \<in> set script),
             hasCallToAction = test_words [''subscribe'', ''like'', ''comment'', ''share''] script,
             hasHook = (case sentences of [] \<Rightarrow> False | s # _ \<Rightarrow> length s < 100),
             questionCount = length (filter (\<lambda>c. c = CHR ''?'') script)\<rparr>,
          readabilityScore = calculateReadability script\<rparr>)"

section \<open>Errors, property reads and user-supplied regular expressions\<close>

text \<open>
  What a call can throw: the \<^verbatim>\<open>Error\<close> of the input check of \<^verbatim>\<open>optimizeScript\<close>
  (the ValidationError of the specification), the \<^verbatim>\<open>SyntaxError\<close> of
  \<^verbatim>\<open>new RegExp\<close> and the \<^verbatim>\<open>TypeError\<close> of spreading a value that is not iterable.
\<close>

datatype js_error = ValidationError | SyntaxError | TypeError

text \<open>A string or \<^verbatim>\<open>undefined\<close> in a condition: only a non-empty string is truthy.\<close>

definition truthy :: "string option \<Rightarrow> bool" where
  "truthy v = (case v of None \<Rightarrow> False | Some t \<Rightarrow> t \<noteq> [])"

text \<open>\<^verbatim>\<open>xs[0]\<close>.\<close>

definition first :: "'a list \<Rightarrow> 'a option" where
  "first xs = (case xs of [] \<Rightarrow> None | x # _ \<Rightarrow> Some x)"

text \<open>
  \<^verbatim>\<open>obj[key]\<close> on an object literal with the own properties \<open>obj\<close>: an own property,
  else a member inherited from \<^verbatim>\<open>Object.prototype\<close> (a function, or the prototype
  itself for \<^verbatim>\<open>__proto__\<close>), else \<^verbatim>\<open>undefined\<close>.
\<close>

datatype 'a property = Own 'a | Inherited | Undefined

definition object_prototype_keys :: "string list" where
  "object_prototype_keys =
     [''constructor'', ''__defineGetter__'', ''__defineSetter__'', ''hasOwnProperty'',
      ''__lookupGetter__'', ''__lookupSetter__'', ''isPrototypeOf'', ''propertyIsEnumerable'',
      ''toString'', ''valueOf'', ''__proto__'', ''toLocaleString'']"

definition get_property :: "(string \<times> 'a) list \<Rightarrow> string \<Rightarrow> 'a property" where
  "get_property obj k =
     (case map_of obj k of
        Some v \<Rightarrow> Own v
      | None \<Rightarrow> if k \<in> set object_prototype_keys then Inherited else Undefined)"

text \<open>
  \<^verbatim>\<open>new RegExp(kw, 'gi')\<close> with the keyword itself as the source of the expression,
  and the number of matches \<^verbatim>\<open>(script.match(regex) || []).length\<close> of the result.
  \<^item> A source without syntax characters matches itself literally.
  \<^item> A source whose only syntax characters are the quantifiers \<^verbatim>\<open>*\<close>, \<^verbatim>\<open>+\<close>,
    \<^verbatim>\<open>?\<close> is rejected ("Nothing to repeat") when a quantifier stands at the start or
    behind a complete quantifier (a quantifier may be followed by one \<^verbatim>\<open>?\<close>, which
    makes it lazy).
  \<^item> Every other source is left to the engine of the runtime, a parameter of the model:
    \<open>None\<close> when the constructor throws, else the function that counts the matches.
\<close>

type_synonym engine = "string \<Rightarrow> (string \<Rightarrow> nat) option"

definition syntax_characters :: string where
  "syntax_characters = ''^$.*+?()[]{}|'' @ [CHR 0x5C]"

abbreviation is_literal :: "string \<Rightarrow> bool" where
  "is_literal src \<equiv> list_all (\<lambda>c. c \<notin> set syntax_characters) src"

datatype quantifier_state = AtStart | AfterAtom | AfterQuantifier | AfterLazy

fun nothing_to_repeat :: "quantifier_state \<Rightarrow> string \<Rightarrow> bool" where
  "nothing_to_repeat st [] = False"
| "nothing_to_repeat st (c # cs) =
     (if c \<in> set ''*+?'' then
        (case st of
           AfterAtom \<Rightarrow> nothing_to_repeat AfterQuantifier cs
         | AfterQuantifier \<Rightarrow> if c = CHR ''?'' then nothing_to_repeat AfterLazy cs else True
         | _ \<Rightarrow> True)
      else nothing_to_repeat AfterAtom cs)"

definition RegExp_gi :: "engine \<Rightarrow> string \<Rightarrow> js_error + (string \<Rightarrow> nat)" where
  "RegExp_gi eng src =
     (if is_literal src then Inr (count_matches src)
      else if list_all (\<lambda>c. c \<notin> set syntax_characters \<or> c \<in> set ''*+?'') src
              \<and> nothing_to_repeat AtStart src
      then Inl SyntaxError
      else case eng src of None \<Rightarrow> Inl SyntaxError | Some matches \<Rightarrow> Inr matches)"

section \<open>Optimization Planner\<close>

record change =
  ch_type :: string
  ch_location :: string
  ch_suggestion :: string
  ch_priority :: string

record engagement_point =
  ep_type :: string
  ep_suggested :: bool

record optimization_result =
  changes :: "change list"
  engagementPoints :: "engagement_point list"

text \<open>
  \<^verbatim>\<open>{ light: 1, moderate: 2, aggressive: 3 }[level] || 2\<close>: the numbers of the table are
  truthy and so is an inherited member; only \<^verbatim>\<open>undefined\<close> gives way to 2.
\<close>

definition intensity :: "string \<Rightarrow> nat property" where
  "intensity lvl =
     (case get_property [(''light'', 1), (''moderate'', 2), (''aggressive'', 3)] lvl of
        Undefined \<Rightarrow> Own 2
      | v \<Rightarrow> v)"

text \<open>\<^verbatim>\<open>intensity >= 2\<close>: an inherited member converts to NaN, and the comparison is false.\<close>

definition intensity_ge_2 :: "nat property \<Rightarrow> bool" where
  "intensity_ge_2 v = (case v of Own n \<Rightarrow> 2 \<le> n | _ \<Rightarrow> False)"

text \<open>The \<^verbatim>\<open>keywords.reduce\<close> of the density check; the constructor may throw.\<close>

fun keywordMentions :: "engine \<Rightarrow> string \<Rightarrow> nat \<Rightarrow> string list \<Rightarrow> js_error + nat" where
  "keywordMentions eng script count [] = Inr count"
| "keywordMentions eng script count (kw # kws) =
     (case RegExp_gi eng kw of
        Inl e \<Rightarrow> Inl e
      | Inr regex \<Rightarrow> keywordMentions eng script (count + regex script) kws)"

text \<open>The local \<^verbatim>\<open>density\<close> of the Planner, for a number of mentions.\<close>

definition planner_density :: "string \<Rightarrow> nat \<Rightarrow> js_num" where
  "planner_density script mentions =
     (let words = length (js_split re_spaces script)
      in js_mul (js_div (Num (real mentions)) (Num (real words))) (Num 100))"

definition generateOptimizations ::
  "engine \<Rightarrow> string \<Rightarrow> string list \<Rightarrow> string \<Rightarrow> string \<Rightarrow> js_error + optimization_result" where
  "generateOptimizations eng script keywords contentStyle lvl =
     (let firstParagraph = (case first (js_split re_blank_line script) of None \<Rightarrow> [] | Some p \<Rightarrow> p);
          primaryKeyword = first keywords;
          opening =
            (if truthy primaryKeyword \<and>
                \<not> js_includes (toLowerCase firstParagraph) (toLowerCase (the primaryKeyword))
             then [\<lparr>ch_type = ''keyword_insertion'', ch_location = ''opening'',
                    ch_suggestion =
                      ''Add '' @ [CHR 0x22] @ the primaryKeyword @ [CHR 0x22] @
                      '' to your opening to improve SEO'',
                    ch_priority = ''high''\<rparr>]
             else []);
          question =
            (if CHR ''?'' \<notin> set script
             then [\<lparr>ch_type = ''engagement'', ch_location = ''throughout'',
                    ch_suggestion = ''Add questions to increase viewer engagement'',
                    ch_priority = ''medium''\<rparr>]
             else []);
          points =
            (if CHR ''?'' \<notin> set script then [\<lparr>ep_type = ''question'', ep_suggested = True\<rparr>] else []);
          cta =
            (if \<not> test_words [''subscribe'', ''like'', ''comment''] script
             then [\<lparr>ch_type = ''cta'', ch_location = ''middle and end'',
                    ch_suggestion = ''Add calls to action (subscribe, like, comment)'',
                    ch_priority = ''high''\<rparr>]
             else [])
      in case keywordMentions eng script 0 keywords of
           Inl e \<Rightarrow> Inl e
         | Inr mentions \<Rightarrow>
             (let density = planner_density script mentions;
                  dens =
                    (if js_lt density (Num 1) \<and> intensity_ge_2 (intensity lvl)
                     then [\<lparr>ch_type = ''keyword_density'', ch_location = ''throughout'',
                            ch_suggestion = ''Keyword density is '' @ toFixed2 density @ ''%. Aim for 1-2%'',
                            ch_priority = ''medium''\<rparr>]
                     else []);
                  firstSentence = first (js_split re_terminator script);
                  hook =
                    (if truthy firstSentence \<and> 150 < length (the firstSentence)
                     then [\<lparr>ch_type = ''hook'', ch_location = ''opening'',
                            ch_suggestion = ''Shorten your opening hook - aim for under 150 characters'',
                            ch_priority = ''high''\<rparr>]
                     else []);
                  structure =
                    (if contentStyle = ''tutorial'' \<and>
                        \<not> test_words [''step'', ''first'', ''next'', ''then'', ''finally''] script
                     then [\<lparr>ch_type = ''structure'', ch_location = ''throughout'',
                            ch_suggestion = ''Add step markers (First, Next, Then, Finally) for tutorials'',
                            ch_priority = ''medium''\<rparr>]
                     else [])
              in Inr \<lparr>changes = opening @ question @ cta @ dens @ hook @ structure,
                      engagementPoints = points\<rparr>))"

section \<open>Rewriter\<close>

definition hookPhrases :: "string list" where
  "hookPhrases =
     [''In this video, you'll learn'',
      ''Have you ever wondered'',
      ''What if I told you'',
      ''The biggest mistake people make is'',
      ''Here's something most people don't know about'']"

text \<open>
  \<^verbatim>\<open>hookPhrases[Math.floor(Math.random() * hookPhrases.length)]\<close> inside the template,
  for the number \<open>rnd\<close> that \<^verbatim>\<open>Math.random()\<close> returns (at least 0, below 1).
\<close>

definition hookIndex :: "real \<Rightarrow> int" where
  "hookIndex rnd = \<lfloor>rnd * real (length hookPhrases)\<rfloor>"

definition pickHook :: "real \<Rightarrow> string" where
  "pickHook rnd =
     (let i = hookIndex rnd
      in if 0 \<le> i \<and> i < int (length hookPhrases) then hookPhrases ! nat i else ''undefined'')"

text \<open>The condition of the hook step: \<^verbatim>\<open>sentences[0]?.length > 150 && primaryKeyword\<close>.\<close>

definition hookNeeded :: "string \<Rightarrow> string option \<Rightarrow> bool" where
  "hookNeeded script primaryKeyword =
     ((case first (js_split re_sentence_gap script) of None \<Rightarrow> False | Some s \<Rightarrow> 150 < length s)
      \<and> truthy primaryKeyword)"

text \<open>Step 1, "Add hook if missing (prepend to script)".\<close>

definition addHook :: "real \<Rightarrow> string option \<Rightarrow> string \<Rightarrow> string" where
  "addHook rnd primaryKeyword script =
     (if hookNeeded script primaryKeyword
      then (pickHook rnd @ '' '' @ the primaryKeyword @ ''. '') @ script
      else script)"

text \<open>Step 2, "Add keyword to first paragraph if missing".\<close>

definition addKeyword :: "string option \<Rightarrow> string \<Rightarrow> string" where
  "addKeyword primaryKeyword optimizedScript =
     (case js_split re_blank_line optimizedScript of
        [] \<Rightarrow> optimizedScript
      | p # ps \<Rightarrow>
          if truthy primaryKeyword \<and> p \<noteq> [] \<and>
             \<not> js_includes (toLowerCase p) (toLowerCase (the primaryKeyword))
          then (case js_split re_sentence_gap p of
                  s0 # s1 # ss \<Rightarrow>
                    js_join [CHR 0x0A, CHR 0x0A]
                      (js_join '' ''
                         (s0 # (''When it comes to '' @ the primaryKeyword @ '', '' @
                                toLowerCase (take 1 s1) @ drop 1 s1) # ss) # ps)
                | _ \<Rightarrow> optimizedScript)
          else optimizedScript)"

text \<open>\<^verbatim>\<open>s.indexOf(c, start)\<close>, \<open>None\<close> for -1.\<close>

definition indexOf :: "char \<Rightarrow> nat \<Rightarrow> string \<Rightarrow> nat option" where
  "indexOf c start s = find (\<lambda>i. s ! i = c) [start..<length s]"

text \<open>Step 3, "Add engagement question if none exists".\<close>

definition questionBlock :: "string option \<Rightarrow> string" where
  "questionBlock primaryKeyword =
     [CHR 0x0A, CHR 0x0A] @ ''What do you think about '' @
     (if truthy primaryKeyword then the primaryKeyword else ''this'') @
     ''? Let me know in the comments.'' @ [CHR 0x0A, CHR 0x0A]"

definition addQuestion :: "string option \<Rightarrow> string \<Rightarrow> string" where
  "addQuestion primaryKeyword optimizedScript =
     (if CHR ''?'' \<notin> set optimizedScript
      then (let midPoint = length optimizedScript div 2
            in case indexOf (CHR ''.'') midPoint optimizedScript of
                 None \<Rightarrow> optimizedScript
               | Some insertPoint \<Rightarrow>
                   take (insertPoint + 1) optimizedScript @ questionBlock primaryKeyword @
                   drop (insertPoint + 1) optimizedScript)
      else optimizedScript)"

text \<open>Step 4, "Add CTA if missing".\<close>

definition closingCTA :: string where
  "closingCTA = [CHR 0x0A, CHR 0x0A] @
     ''If you found this helpful, don't forget to like this video and subscribe for more content like this!''"

definition addCTA :: "string \<Rightarrow> string" where
  "addCTA optimizedScript =
     (if \<not> test_words [''subscribe'', ''like'', ''comment''] optimizedScript
      then optimizedScript @ closingCTA
      else optimizedScript)"

text \<open>
  The text of the Rewriter when it reaches the question step: the script after the hook
  and keyword steps.
\<close>

definition beforeQuestion :: "real \<Rightarrow> string \<Rightarrow> string list \<Rightarrow> string" where
  "beforeQuestion rnd script primaryKeywords =
     addKeyword (first primaryKeywords) (addHook rnd (first primaryKeywords) script)"

definition applyOptimizations ::
  "real \<Rightarrow> string \<Rightarrow> optimization_result \<Rightarrow> string list \<Rightarrow> string \<Rightarrow> string" where
  "applyOptimizations rnd script optimizations primaryKeywords contentStyle =
     addCTA (addQuestion (first primaryKeywords) (beforeQuestion rnd script primaryKeywords))"

section \<open>Report Assembler\<close>

text \<open>
  A structure recommendation. The issue of the duration check is the template
  \<^verbatim>\<open>Script is short|long (${estimatedMinutes} min) for ${targetDuration} min target\<close>,
  kept as its three arguments. \<open>sr_sections\<close> is \<open>Inherited\<close> when the style names a
  member of \<^verbatim>\<open>Object.prototype\<close>.
\<close>

record recommendation =
  sr_section :: string
  sr_issue :: "(string \<times> nat \<times> real) option"
  sr_suggestion :: string
  sr_sections :: "string list property option"

definition structureGuide :: "(string \<times> string list) list" where
  "structureGuide =
     [(''tutorial'', [''Introduction'', ''Prerequisites/Setup'', ''Step-by-step instructions'',
                      ''Tips & Tricks'', ''Conclusion'']),
      (''review'', [''Introduction'', ''Overview/Unboxing'', ''Features'', ''Pros & Cons'', ''Verdict'']),
      (''educational'', [''Hook'', ''Context'', ''Main concepts'', ''Examples'', ''Summary'']),
      (''entertainment'', [''Hook'', ''Setup'', ''Main content'', ''Payoff'', ''Outro'']),
      (''vlog'', [''Intro'', ''Main activities'', ''Highlights'', ''Reflection'', ''Outro''])]"

definition generateStructureRecommendations :: "string \<Rightarrow> real \<Rightarrow> string \<Rightarrow> recommendation list" where
  "generateStructureRecommendations script targetDuration contentStyle =
     (let words = length (js_split re_spaces script);
          estimatedMinutes = nat \<lceil>real words / 150\<rceil>;
          duration =
            (if real estimatedMinutes < targetDuration * 0.8
             then [\<lparr>sr_section = ''overall'',
                    sr_issue = Some (''short'', estimatedMinutes, targetDuration),
                    sr_suggestion = ''Add more detail, examples, or sections to reach target duration'',
                    sr_sections = None\<rparr>]
             else if targetDuration * 1.2 < real estimatedMinutes
             then [\<lparr>sr_section = ''overall'',
                    sr_issue = Some (''long'', estimatedMinutes, targetDuration),
                    sr_suggestion = ''Trim unnecessary content or split into multiple videos'',
                    sr_sections = None\<rparr>]
             else [])
      in duration @
         [\<lparr>sr_section = ''structure'',
           sr_issue = None,
           sr_suggestion = ''Recommended structure for '' @ contentStyle @ '':'',
           sr_sections =
             Some (case get_property structureGuide contentStyle of
                     Undefined \<Rightarrow> get_property structureGuide ''tutorial''
                   | v \<Rightarrow> v)\<rparr>])"

record engagement_suggestion =
  es_type :: string
  es_timing :: string
  es_suggestion :: string
  es_examples :: "string list"

definition transitionPhrases :: "string list" where
  "transitionPhrases =
     [''Now let's talk about'', ''Moving on to'', ''Here's where it gets interesting'',
      ''The next important point is'', ''Let me show you'']"

definition engagementPhrases :: "string list" where
  "engagementPhrases =
     [''Let me know in the comments'', ''Drop a like if you agree'', ''Subscribe for more'',
      ''What do you think about'', ''Share this with someone who needs it'']"

definition retentionPhrases :: "string list" where
  "retentionPhrases =
     [''Stay until the end for'', ''I'll reveal the secret at'', ''Keep watching to discover'',
      ''The best tip is coming up'', ''Don't miss what's next'']"

definition generateEngagementSuggestions :: "string \<Rightarrow> string \<Rightarrow> engagement_suggestion list" where
  "generateEngagementSuggestions script contentStyle =
     [\<lparr>es_type = ''retention'', es_timing = ''30 seconds in'',
       es_suggestion =
         ''Add a pattern interrupt or tease what's coming ('' @ [CHR 0x22] @
         ''Stay until the end for...'' @ [CHR 0x22] @ '')'',
       es_examples = take 2 retentionPhrases\<rparr>,
      \<lparr>es_type = ''engagement'', es_timing = ''middle of video'',
       es_suggestion = ''Ask a question or request interaction'',
       es_examples = take 2 engagementPhrases\<rparr>,
      \<lparr>es_type = ''transitions'', es_timing = ''between sections'',
       es_suggestion = ''Use clear transition phrases to maintain flow'',
       es_examples = take 2 transitionPhrases\<rparr>,
      \<lparr>es_type = ''hook'', es_timing = ''first 15 seconds'',
       es_suggestion = ''Start with a strong hook that creates curiosity'',
       es_examples = take 2 hookPhrases\<rparr>]"

record keyword_insertion =
  ki_keyword :: string
  ki_currentCount :: nat
  ki_recommendedCount :: string
  ki_locations :: "string list"

text \<open>
  The two \<^verbatim>\<open>forEach\<close> loops of \<^verbatim>\<open>suggestKeywordInsertions\<close>: a keyword counted below
  \<open>limit\<close> is pushed with the given recommendation. The constructor may throw.
\<close>

fun push_insertions ::
  "engine \<Rightarrow> string \<Rightarrow> nat \<Rightarrow> string \<Rightarrow> string list \<Rightarrow> string list \<Rightarrow> js_error + keyword_insertion list" where
  "push_insertions eng script limit recommended locations [] = Inr []"
| "push_insertions eng script limit recommended locations (keyword # kws) =
     (case RegExp_gi eng keyword of
        Inl e \<Rightarrow> Inl e
      | Inr regex \<Rightarrow>
          (let count = regex script
           in case push_insertions eng script limit recommended locations kws of
                Inl e \<Rightarrow> Inl e
              | Inr suggestions \<Rightarrow>
                  Inr ((if count < limit
                        then [\<lparr>ki_keyword = keyword, ki_currentCount = count,
                               ki_recommendedCount = recommended, ki_locations = locations\<rparr>]
                        else []) @ suggestions)))"

definition suggestKeywordInsertions ::
  "engine \<Rightarrow> string \<Rightarrow> string list \<Rightarrow> string list \<Rightarrow> js_error + keyword_insertion list" where
  "suggestKeywordInsertions eng script primaryKeywords secondaryKeywords =
     (case push_insertions eng script 3 ''3-5''
             [''Opening sentence'', ''Middle of content'', ''Conclusion''] primaryKeywords of
        Inl e \<Rightarrow> Inl e
      | Inr ps \<Rightarrow>
          (case push_insertions eng script 1 ''1-2'' [''Body content''] (take 3 secondaryKeywords) of
             Inl e \<Rightarrow> Inl e
           | Inr ss \<Rightarrow> Inr (ps @ ss)))"

definition commonTips :: "string list" where
  "commonTips =
     [''Speak naturally - keyword stuffing sounds robotic'',
      ''Use keywords in questions to sound more natural'',
      ''Mention your primary keyword in the first 30 seconds for YouTube SEO'',
      ''Repeat key points for retention'',
      ''Use '' @ [CHR 0x22] @ ''you'' @ [CHR 0x22] @ '' language to connect with viewers'']"

definition styleTips :: "(string \<times> string list) list" where
  "styleTips =
     [(''tutorial'', [''Number your steps clearly'', ''Pause after important points'',
                      ''Acknowledge common mistakes'']),
      (''review'', [''Be honest about drawbacks'', ''Compare to alternatives'',
                    ''Give a clear recommendation'']),
      (''educational'', [''Start with why it matters'', ''Use analogies and examples'',
                         ''Summarize key takeaways''])]"

text \<open>
  \<^verbatim>\<open>[...commonTips, ...(styleTips[contentStyle] || [])]\<close>: an inherited member is truthy
  and not iterable, so spreading it throws.
\<close>

definition getScriptTips :: "string \<Rightarrow> js_error + string list" where
  "getScriptTips contentStyle =
     (case get_property styleTips contentStyle of
        Own ts \<Rightarrow> Inr (commonTips @ ts)
      | Undefined \<Rightarrow> Inr commonTips
      | Inherited \<Rightarrow> Inl TypeError)"

record warning =
  w_type :: string
  w_message :: string

definition generateWarnings :: "analysis \<Rightarrow> warning list" where
  "generateWarnings a =
     (if js_gt (parseFloat (keywordDensity a)) (Num 3)
      then [\<lparr>w_type = ''keyword_stuffing'',
             w_message = ''Keyword density ('' @ keywordDensity a @ ''%) is too high - may sound unnatural''\<rparr>]
      else []) @
     (if js_gt (averageSentenceLength a) (Num 25)
      then [\<lparr>w_type = ''readability'',
             w_message = ''Average sentence length is high - consider breaking up long sentences''\<rparr>]
      else []) @
     (if \<not> hasCallToAction (engagementElements a)
      then [\<lparr>w_type = ''missing_cta'',
             w_message = ''No clear call to action found - add subscribe/like reminders''\<rparr>]
      else [])"

section \<open>The request and the report\<close>

text \<open>
  The argument of \<^verbatim>\<open>optimizeScript\<close>: a field that is absent is \<open>None\<close>. A keyword
  tier is the list of the \<^verbatim>\<open>keyword\<close> strings of its entries.
\<close>

record recommended_keywords =
  primary :: "string list option"
  secondary :: "string list option"
  longTail :: "string list option"

record keyword_data =
  recommended :: "recommended_keywords option"

record request =
  req_script :: "string option"
  req_concept :: "string option"
  req_keywords :: "keyword_data option"
  req_targetDuration :: "real option"
  req_contentStyle :: "string option"
  req_optimizationLevel :: "string option"

text \<open>
  What a call reads from outside its arguments: the clock, as the text
  \<^verbatim>\<open>new Date().toISOString()\<close> gives, and the number \<^verbatim>\<open>Math.random()\<close> returns.
  The line the call writes with \<^verbatim>\<open>console.log\<close> is no part of its result and is left
  out.
\<close>

record environment =
  now :: string
  random :: real

record analyzed_script =
  as_script :: string
  as_analysis :: analysis

record improvements =
  keywordDensityChange :: string
  keywordsAdded :: int
  engagementPointsAdded :: nat

record report =
  rep_concept :: string
  rep_contentStyle :: string
  rep_targetDuration :: real
  rep_optimizationLevel :: string
  generatedAt :: string
  original :: analyzed_script
  optimized :: analyzed_script
  rep_improvements :: improvements
  rep_optimizations :: "change list"
  structureRecommendations :: "recommendation list"
  engagementSuggestions :: "engagement_suggestion list"
  keywordInsertions :: "keyword_insertion list"
  tips :: "string list"
  warnings :: "warning list"

text \<open>\<^verbatim>\<open>keywords?.recommended?.tier?.map(k => k.keyword) || fallback\<close>: an array, also an
  empty one, is truthy.\<close>

definition keyword_tier ::
  "(recommended_keywords \<Rightarrow> string list option) \<Rightarrow> keyword_data option \<Rightarrow> string list \<Rightarrow> string list" where
  "keyword_tier tier keywords fallback =
     (case keywords of
        None \<Rightarrow> fallback
      | Some k \<Rightarrow>
          (case recommended k of
             None \<Rightarrow> fallback
           | Some r \<Rightarrow> (case tier r of None \<Rightarrow> fallback | Some ks \<Rightarrow> ks)))"

definition optimizeScript :: "engine \<Rightarrow> environment \<Rightarrow> request \<Rightarrow> js_error + report" where
  "optimizeScript eng env req =
     (if \<not> truthy (req_script req) \<or> \<not> truthy (req_concept req) then Inl ValidationError
      else
        let script = the (req_script req);
            concept = the (req_concept req);
            targetDuration = (case req_targetDuration req of None \<Rightarrow> 10 | Some d \<Rightarrow> d);
            contentStyle = (case req_contentStyle req of None \<Rightarrow> ''tutorial'' | Some c \<Rightarrow> c);
            optimizationLevel =
              (case req_optimizationLevel req of None \<Rightarrow> ''moderate'' | Some l \<Rightarrow> l);
            primaryKeywords = keyword_tier primary (req_keywords req) [concept];
            secondaryKeywords = keyword_tier secondary (req_keywords req) [];
            longTailKeywords = keyword_tier longTail (req_keywords req) [];
            allKeywords = primaryKeywords @ secondaryKeywords @ longTailKeywords;
            originalAnalysis = analyzeScript script allKeywords
        in case generateOptimizations eng script allKeywords contentStyle optimizationLevel of
             Inl e \<Rightarrow> Inl e
           | Inr optimizations \<Rightarrow>
               let optimizedScript =
                     applyOptimizations (random env) script optimizations primaryKeywords contentStyle;
                   optimizedAnalysis = analyzeScript optimizedScript allKeywords
               in case suggestKeywordInsertions eng script primaryKeywords secondaryKeywords of
                    Inl e \<Rightarrow> Inl e
                  | Inr insertions \<Rightarrow>
                      (case getScriptTips contentStyle of
                         Inl e \<Rightarrow> Inl e
                       | Inr scriptTips \<Rightarrow>
                           Inr \<lparr>rep_concept = concept,
                                rep_contentStyle = contentStyle,
                                rep_targetDuration = targetDuration,
                                rep_optimizationLevel = optimizationLevel,
                                generatedAt = now env,
                                original = \<lparr>as_script = script, as_analysis = originalAnalysis\<rparr>,
                                optimized =
                                  \<lparr>as_script = optimizedScript, as_analysis = optimizedAnalysis\<rparr>,
                                rep_improvements =
                                  \<lparr>keywordDensityChange =
                                     toFixed2 (js_sub (parseFloat (keywordDensity optimizedAnalysis))
                                                 (parseFloat (keywordDensity originalAnalysis))),
                                   keywordsAdded =
                                     int (keywordsFound optimizedAnalysis) -
                                     int (keywordsFound originalAnalysis),
                                   engagementPointsAdded = length (engagementPoints optimizations)\<rparr>,
                                rep_optimizations = changes optimizations,
                                structureRecommendations =
                                  generateStructureRecommendations script targetDuration contentStyle,
                                engagementSuggestions = generateEngagementSuggestions script contentStyle,
                                keywordInsertions = insertions,
                                tips = scriptTips,
                                warnings = generateWarnings optimizedAnalysis\<rparr>))"

section \<open>Requests by their parts, and the inputs of the examples\<close>

text \<open>
  What \<^verbatim>\<open>optimizeScript\<close> computes from a valid request before it calls the stages:
  the script, the keyword lists, and the style and level with their defaults.
\<close>

abbreviation scriptOf :: "request \<Rightarrow> string" where
  "scriptOf req \<equiv> the (req_script req)"

abbreviation primaryKeywordsOf :: "request \<Rightarrow> string list" where
  "primaryKeywordsOf req \<equiv> keyword_tier primary (req_keywords req) [the (req_concept req)]"

abbreviation allKeywordsOf :: "request \<Rightarrow> string list" where
  "allKeywordsOf req \<equiv>
     primaryKeywordsOf req @ keyword_tier secondary (req_keywords req) [] @
     keyword_tier longTail (req_keywords req) []"

abbreviation contentStyleOf :: "request \<Rightarrow> string" where
  "contentStyleOf req \<equiv> (case req_contentStyle req of None \<Rightarrow> ''tutorial'' | Some c \<Rightarrow> c)"

abbreviation optimizationLevelOf :: "request \<Rightarrow> string" where
  "optimizationLevelOf req \<equiv>
     (case req_optimizationLevel req of None \<Rightarrow> ''moderate'' | Some l \<Rightarrow> l)"

text \<open>
  Inputs of the examples below: a script of sixteen words in one sentence, a Planner
  result without entries (the Rewriter never reads its second argument), a request with
  the two required fields only, an engine that rejects every source left to it, and a
  clock reading with a random number.
\<close>

definition sixteen_words :: string where
  "sixteen_words = ''a a a a a a a a a a a hello hello hello hello hello''"

definition no_changes :: optimization_result where
  "no_changes = \<lparr>changes = [], engagementPoints = []\<rparr>"

definition plain_request :: "string \<Rightarrow> string \<Rightarrow> request" where
  "plain_request script concept =
     \<lparr>req_script = Some script, req_concept = Some concept, req_keywords = None,
      req_targetDuration = None, req_contentStyle = None, req_optimizationLevel = None\<rparr>"

definition no_engine :: engine where
  "no_engine = (\<lambda>src. None)"

definition new_year :: environment where
  "new_year = \<lparr>now = ''2024-01-01T00:00:00.000Z'', random = 0\<rparr>"

section \<open>Properties\<close>

subsection \<open>Syllables\<close>

text \<open>
  C5 (as the code has it): the heuristic gives 1 for "cat", 3 for "banana", and 1 for
  "simple", whose two vowel groups (i, e) lose one for the final e.
\<close>

theorem countSyllables_examples:
  "countSyllables ''cat'' = 1 \<and> countSyllables ''banana'' = 3 \<and> countSyllables ''simple'' = 1"
  by code_simp

text \<open>C5 (as the spec states it) fails: "simple" does not count 2 syllables.\<close>

theorem countSyllables_simple_not_2: "countSyllables ''simple'' \<noteq> 2"
  by code_simp

subsection \<open>Evaluation\<close>

lemmas split_defs = js_split_def re_spaces_def re_terminators_def re_terminator_def
  re_blank_line_def re_blank_lines_def re_sentence_gap_def is_space_def is_terminator_def

lemma analyzeScript_wordCount:
  "wordCount (analyzeScript script keywords) =
     length (filter (\<lambda>w. 0 < length w) (js_split re_spaces script))"
  by (simp add: analyzeScript_def Let_def)

lemma analyzeScript_totalKeywordMentions:
  "totalKeywordMentions (analyzeScript script keywords) =
     fst (foldl (count_keyword script) (0, []) keywords)"
  by (simp add: analyzeScript_def Let_def)

lemma analyzeScript_keywordDensity:
  "keywordDensity (analyzeScript script keywords) =
     toFixed2 (js_mul (js_div (Num (real (totalKeywordMentions (analyzeScript script keywords))))
                              (Num (real (wordCount (analyzeScript script keywords))))) (Num 100))"
  by (simp add: analyzeScript_def Let_def)

lemma analyzeScript_hasCallToAction:
  "hasCallToAction (engagementElements (analyzeScript script keywords)) =
     test_words [''subscribe'', ''like'', ''comment'', ''share''] script"
  by (simp add: analyzeScript_def Let_def)

lemma words_x4: "js_split re_spaces ''x x x x'' = [''x'', ''x'', ''x'', ''x'']"
  by (simp add: split_defs)

lemma matches_x4: "count_matches ''x'' ''x x x x'' = 4"
  by (simp add: count_matches_def toLowerCase_def is_capital_def)

text \<open>
  C7: for the keyword list ["x"] and the script "x x x x" the Metrics count 4 words and 4
  keyword mentions, and the keywordDensity is "100.00".
\<close>

theorem keywordDensity_x4:
  "wordCount (analyzeScript ''x x x x'' [''x'']) = 4 \<and>
   totalKeywordMentions (analyzeScript ''x x x x'' [''x'']) = 4 \<and>
   keywordDensity (analyzeScript ''x x x x'' [''x'']) = ''100.00''"
proof -
  have w: "wordCount (analyzeScript ''x x x x'' [''x'']) = 4"
    by (simp add: analyzeScript_wordCount words_x4)
  have m: "totalKeywordMentions (analyzeScript ''x x x x'' [''x'']) = 4"
    by (simp add: analyzeScript_totalKeywordMentions count_keyword_def matches_x4)
  have "keywordDensity (analyzeScript ''x x x x'' [''x'']) = ''100.00''"
    by (simp add: analyzeScript_keywordDensity w m fixed2_def)
  with w m show ?thesis by simp
qed

subsection \<open>Readability\<close>

lemma readability_fields:
  "score (calculateReadability script) = Math_round (readability_score script)"
  "level (calculateReadability script) = readability_level (readability_score script)"
  by (simp_all add: calculateReadability_def Let_def)

text \<open>
  C8 (as the code has it): the level is "very easy" exactly when the score before rounding
  is at least 80, and "easy" exactly when it is at least 60 and below 80; the reported
  score is that score rounded. The bounds are inclusive below: 80 is "very easy", 79 is
  "easy".
\<close>

theorem readability_level_by_raw_score:
  "(level (calculateReadability script) = ''very easy'' \<longleftrightarrow>
      js_ge (readability_score script) (Num 80)) \<and>
   (level (calculateReadability script) = ''easy'' \<longleftrightarrow>
      js_ge (readability_score script) (Num 60) \<and> \<not> js_ge (readability_score script) (Num 80)) \<and>
   score (calculateReadability script) = Math_round (readability_score script) \<and>
   readability_level (Num 80) = ''very easy'' \<and> readability_level (Num 79) = ''easy''"
  by (simp add: readability_fields readability_level_def js_ge_def)

lemma sixteen_words_split:
  "js_split re_spaces sixteen_words =
     [''a'', ''a'', ''a'', ''a'', ''a'', ''a'', ''a'', ''a'', ''a'', ''a'', ''a'',
      ''hello'', ''hello'', ''hello'', ''hello'', ''hello'']"
  by (simp add: sixteen_words_def split_defs)

lemma sixteen_words_sentences:
  "filter (\<lambda>s. trim s \<noteq> []) (js_split re_terminators sixteen_words) = [sixteen_words]"
  by (simp add: sixteen_words_def split_defs trim_def)

lemma syllables_a_hello: "countSyllables ''a'' = 1" "countSyllables ''hello'' = 2"
  by (simp_all add: countSyllables_def toLowerCase_def is_capital_def endsWith_e_def)

lemma sixteen_words_score: "readability_score sixteen_words = Num (31823 / 400)"
  by (simp add: readability_score_def Let_def sixteen_words_split sixteen_words_sentences
      syllables_a_hello js_sub_def)

text \<open>
  C8 (as the spec states it) fails: sixteen words in one sentence with 21 syllables score
  79.5575, which is reported as 80 with the level "easy".
\<close>

theorem readability_rounded_80_easy:
  "calculateReadability ''a a a a a a a a a a a hello hello hello hello hello'' =
     \<lparr>score = Num 80, level = ''easy''\<rparr>"
  using sixteen_words_score
  by (simp add: calculateReadability_def readability_level_def js_ge_def sixteen_words_def)

subsection \<open>Rewriter\<close>

lemma toLowerCase_append: "toLowerCase (s @ t) = toLowerCase s @ toLowerCase t"
  by (simp add: toLowerCase_def)

lemma sublist_append_either: "sublist w s \<or> sublist w t \<Longrightarrow> sublist w (s @ t)"
  by (auto simp: sublist_append)

lemma test_words_append: "test_words ws s \<or> test_words ws t \<Longrightarrow> test_words ws (s @ t)"
  unfolding test_words_def list_ex_iff toLowerCase_append
  by (blast intro: sublist_append_either)

lemma closingCTA_like: "sublist ''like'' (toLowerCase closingCTA)"
  by (simp add: closingCTA_def toLowerCase_def is_capital_def sublist_code)

lemma closingCTA_test: "test_words [''subscribe'', ''like'', ''comment''] closingCTA"
  by (simp add: test_words_def closingCTA_like)

lemma addCTA_test: "test_words [''subscribe'', ''like'', ''comment''] (addCTA s)"
  by (simp add: addCTA_def test_words_append closingCTA_test)

lemma applyOptimizations_test:
  "test_words [''subscribe'', ''like'', ''comment'']
     (applyOptimizations rnd script optimizations primaryKeywords contentStyle)"
  by (simp add: applyOptimizations_def addCTA_test)

lemma closingCTA_no_question: "CHR ''?'' \<notin> set closingCTA"
  by (simp add: closingCTA_def)

lemma questionBlock_question: "CHR ''?'' \<in> set (questionBlock primaryKeyword)"
  by (simp add: questionBlock_def)

lemma addCTA_question: "CHR ''?'' \<in> set (addCTA s) \<longleftrightarrow> CHR ''?'' \<in> set s"
  by (simp add: addCTA_def closingCTA_no_question)

lemma indexOf_Some:
  "(\<exists>p. indexOf c start s = Some p) \<longleftrightarrow> (\<exists>i. start \<le> i \<and> i < length s \<and> s ! i = c)"
proof -
  have "indexOf c start s = None \<longleftrightarrow> \<not> (\<exists>i. start \<le> i \<and> i < length s \<and> s ! i = c)"
    by (auto simp: indexOf_def find_None_iff)
  then show ?thesis
    by (cases "indexOf c start s") auto
qed

lemma addQuestion_question:
  "CHR ''?'' \<in> set (addQuestion primaryKeyword s) \<longleftrightarrow>
     CHR ''?'' \<in> set s \<or> indexOf (CHR ''.'') (length s div 2) s \<noteq> None"
  by (cases "indexOf (CHR ''.'') (length s div 2) s")
     (simp_all add: addQuestion_def questionBlock_question)

lemma applyOptimizations_question:
  "CHR ''?'' \<in> set (applyOptimizations rnd script optimizations primaryKeywords contentStyle) \<longleftrightarrow>
     CHR ''?'' \<in> set (beforeQuestion rnd script primaryKeywords) \<or>
     indexOf (CHR ''.'') (length (beforeQuestion rnd script primaryKeywords) div 2)
       (beforeQuestion rnd script primaryKeywords) \<noteq> None"
  by (simp add: applyOptimizations_def addCTA_question addQuestion_question)

lemmas rewriter_eval = beforeQuestion_def addKeyword_def addHook_def hookNeeded_def first_def
  truthy_def split_defs js_includes_def toLowerCase_def is_capital_def sublist_code

lemma beforeQuestion_cats: "beforeQuestion 0 ''Cats. They rule'' [''cats''] = ''Cats. They rule''"
  by (simp add: rewriter_eval)

lemma beforeQuestion_hello: "beforeQuestion 0 ''Hello world.'' [''hello''] = ''Hello world.''"
  by (simp add: rewriter_eval)

text \<open>
  C2 (as the code has it): for a script without a question mark, the optimized script has
  one exactly when the text the Rewriter holds after its hook and keyword steps has one
  (brought in by the primary keyword) or has a full stop at or behind its midpoint, the
  offset half its length rounded down. Otherwise the question step changes nothing.
\<close>

theorem question_injected_iff:
  assumes "CHR ''?'' \<notin> set script"
  shows "CHR ''?'' \<in> set (applyOptimizations rnd script optimizations primaryKeywords contentStyle) \<longleftrightarrow>
     CHR ''?'' \<in> set (beforeQuestion rnd script primaryKeywords) \<or>
     (\<exists>i. length (beforeQuestion rnd script primaryKeywords) div 2 \<le> i \<and>
          i < length (beforeQuestion rnd script primaryKeywords) \<and>
          beforeQuestion rnd script primaryKeywords ! i = CHR ''.'')"
  using indexOf_Some [of "CHR ''.''" "length (beforeQuestion rnd script primaryKeywords) div 2"
      "beforeQuestion rnd script primaryKeywords"]
  by (auto simp: applyOptimizations_question)

text \<open>C2, an instance: "Hello world." ends in a full stop behind its midpoint.\<close>

theorem question_injected_iff_witness:
  "CHR ''?'' \<notin> set ''Hello world.'' \<and>
   CHR ''?'' \<in> set (applyOptimizations 0 ''Hello world.'' no_changes [''hello''] ''vlog'')"
proof -
  have a: "CHR ''?'' \<notin> set ''Hello world.''"
    by simp
  have "(6::nat) \<le> 11 \<and> 11 < length ''Hello world.'' \<and> ''Hello world.'' ! 11 = CHR ''.''"
    by simp
  then have "\<exists>i. length ''Hello world.'' div 2 \<le> i \<and> i < length ''Hello world.'' \<and>
      ''Hello world.'' ! i = CHR ''.''"
    by (intro exI [of _ 11]) simp
  with question_injected_iff [OF a, of 0 no_changes "[''hello'']" "''vlog''"] a
  show ?thesis
    by (simp only: beforeQuestion_hello simp_thms)
qed

text \<open>
  C2 (as the spec states it) fails: a script with a full stop, but none at or behind its
  midpoint, gets no question mark.
\<close>

theorem no_question_despite_full_stop:
  "CHR ''?'' \<notin> set ''Cats. They rule'' \<and> CHR ''.'' \<in> set ''Cats. They rule'' \<and>
   CHR ''?'' \<notin> set (applyOptimizations 0 ''Cats. They rule'' no_changes [''cats''] ''tutorial'')"
  by (simp add: applyOptimizations_question beforeQuestion_cats indexOf_def)

text \<open>
  C3: a script with none of the words subscribe, like, comment (in any letter case) is
  rewritten to a script that has one of them.
\<close>

theorem cta_words_added:
  assumes "\<not> test_words [''subscribe'', ''like'', ''comment''] script"
  shows "test_words [''subscribe'', ''like'', ''comment'']
     (applyOptimizations rnd script optimizations primaryKeywords contentStyle)"
  by (rule applyOptimizations_test)

text \<open>C3, an instance: "Hello world." has none of the words.\<close>

theorem cta_words_added_witness:
  "\<not> test_words [''subscribe'', ''like'', ''comment''] ''Hello world.'' \<and>
   test_words [''subscribe'', ''like'', ''comment'']
     (applyOptimizations 0 ''Hello world.'' no_changes [''hello''] ''vlog'')"
proof -
  have a: "\<not> test_words [''subscribe'', ''like'', ''comment''] ''Hello world.''"
    by (simp add: test_words_def toLowerCase_def is_capital_def sublist_code)
  from a cta_words_added [OF a] show ?thesis
    by simp
qed

subsection \<open>Planner\<close>

lemma RegExp_gi_literal:
  "is_literal src \<Longrightarrow> RegExp_gi eng src = Inr (count_matches src)"
  by (simp add: RegExp_gi_def)

lemma keywordMentions_literal:
  "list_all is_literal kws \<Longrightarrow> \<exists>m. keywordMentions eng script count kws = Inr m"
  by (induction kws arbitrary: count) (simp_all add: RegExp_gi_literal)

lemma generateOptimizations_Inl:
  "keywordMentions eng script 0 keywords = Inl e \<Longrightarrow>
   generateOptimizations eng script keywords contentStyle lvl = Inl e"
  by (simp add: generateOptimizations_def Let_def)

lemma type_of_optional:
  "y \<in> set (map ch_type (if c then [x] else [])) \<longleftrightarrow> c \<and> y = ch_type x"
  by (cases c) simp_all

lemma generateOptimizations_Inr:
  assumes "generateOptimizations eng script keywords contentStyle lvl = Inr r"
  shows "\<exists>m. keywordMentions eng script 0 keywords = Inr m \<and>
     (''keyword_density'' \<in> set (map ch_type (changes r)) \<longleftrightarrow>
        js_lt (planner_density script m) (Num 1) \<and> intensity_ge_2 (intensity lvl))"
proof (cases "keywordMentions eng script 0 keywords")
  case (Inl e)
  with assms show ?thesis
    by (simp add: generateOptimizations_Inl)
next
  case (Inr m)
  with assms have "''keyword_density'' \<in> set (map ch_type (changes r)) \<longleftrightarrow>
        js_lt (planner_density script m) (Num 1) \<and> intensity_ge_2 (intensity lvl)"
    by (auto simp add: generateOptimizations_def Let_def type_of_optional
        simp del: set_map split del: if_split)
  with Inr show ?thesis
    by simp
qed

lemma generateOptimizations_returns:
  "keywordMentions eng script 0 keywords = Inr m \<Longrightarrow>
   \<exists>r. generateOptimizations eng script keywords contentStyle lvl = Inr r"
  by (simp add: generateOptimizations_def Let_def)

lemma intensity_values:
  "intensity ''light'' = Own 1" "intensity ''moderate'' = Own 2" "intensity ''aggressive'' = Own 3"
  "intensity ''constructor'' = Inherited"
  by (simp_all add: intensity_def get_property_def object_prototype_keys_def)

lemma intensity_default:
  "lvl \<notin> set [''light'', ''moderate'', ''aggressive''] \<Longrightarrow> lvl \<notin> set object_prototype_keys \<Longrightarrow>
   intensity lvl = Own 2"
  by (simp add: intensity_def get_property_def)

lemma light_never_density:
  "generateOptimizations eng script keywords contentStyle ''light'' = Inr r \<Longrightarrow>
   ''keyword_density'' \<notin> set (map ch_type (changes r))"
  by (drule generateOptimizations_Inr) (auto simp: intensity_values intensity_ge_2_def)

lemma filter_optional:
  "filter P (if c then [x] else []) = (if c \<and> P x then [x] else [])"
  by (cases c) simp_all

lemma level_gates_only_density:
  assumes "generateOptimizations eng script keywords contentStyle lvl1 = Inr r1"
    and "generateOptimizations eng script keywords contentStyle lvl2 = Inr r2"
  shows "filter (\<lambda>c. ch_type c \<noteq> ''keyword_density'') (changes r1) =
         filter (\<lambda>c. ch_type c \<noteq> ''keyword_density'') (changes r2) \<and>
         engagementPoints r1 = engagementPoints r2"
proof (cases "keywordMentions eng script 0 keywords")
  case (Inl e)
  with assms show ?thesis
    by (simp add: generateOptimizations_Inl)
next
  case (Inr m)
  with assms show ?thesis
    by (auto simp add: generateOptimizations_def Let_def filter_optional split del: if_split)
qed

lemmas planner_eval = generateOptimizations_def planner_density_def RegExp_gi_def
  syntax_characters_def count_matches_def test_words_def intensity_ge_2_def

lemma mentions_zebra: "keywordMentions eng ''hello world'' 0 [''zebra''] = Inr 0"
  by (simp add: planner_eval toLowerCase_def is_capital_def)

lemma density_zebra: "planner_density ''hello world'' 0 = Num 0"
  by (simp add: planner_density_def split_defs)

text \<open>
  C6: the density suggestion is emitted exactly when the density is below 1 and the
  intensity is at least 2 (see the lemmas above), but not every level outside the table
  has intensity 2. For the script "hello world" and the keyword "zebra" the density is 0;
  the level "turbo" gets the suggestion, the level "constructor", which names a member of
  Object.prototype, does not.
\<close>

theorem inherited_level_suppresses_density:
  "keywordMentions eng ''hello world'' 0 [''zebra''] = Inr 0 \<and>
   js_lt (planner_density ''hello world'' 0) (Num 1) \<and>
   intensity ''turbo'' = Own 2 \<and> intensity ''constructor'' = Inherited \<and>
   map_sum id (\<lambda>r. map ch_type (changes r))
     (generateOptimizations eng ''hello world'' [''zebra''] ''vlog'' ''turbo'') =
     Inr [''keyword_insertion'', ''engagement'', ''cta'', ''keyword_density''] \<and>
   map_sum id (\<lambda>r. map ch_type (changes r))
     (generateOptimizations eng ''hello world'' [''zebra''] ''vlog'' ''constructor'') =
     Inr [''keyword_insertion'', ''engagement'', ''cta'']"
proof -
  have "intensity ''turbo'' = Own 2"
    by (simp add: intensity_def get_property_def object_prototype_keys_def)
  then show ?thesis
    by (simp add: generateOptimizations_def Let_def mentions_zebra density_zebra intensity_values
        intensity_ge_2_def test_words_def first_def truthy_def split_defs js_includes_def
        toLowerCase_def is_capital_def sublist_code del: keywordMentions.simps)
qed

subsection \<open>The whole call\<close>

lemma optimizeScript_invalid:
  "\<not> truthy (req_script req) \<or> \<not> truthy (req_concept req) \<Longrightarrow>
   optimizeScript eng env req = Inl ValidationError"
  by (simp add: optimizeScript_def)

lemma optimizeScript_Inr:
  assumes "optimizeScript eng env req = Inr rep"
  shows "truthy (req_script req) \<and> truthy (req_concept req) \<and>
     (\<exists>opts.
        generateOptimizations eng (scriptOf req) (allKeywordsOf req) (contentStyleOf req)
          (optimizationLevelOf req) = Inr opts \<and>
        as_script (optimized rep) =
          applyOptimizations (random env) (scriptOf req) opts (primaryKeywordsOf req)
            (contentStyleOf req)) \<and>
     as_analysis (optimized rep) = analyzeScript (as_script (optimized rep)) (allKeywordsOf req) \<and>
     original rep =
       \<lparr>as_script = scriptOf req, as_analysis = analyzeScript (scriptOf req) (allKeywordsOf req)\<rparr> \<and>
     warnings rep = generateWarnings (as_analysis (optimized rep)) \<and>
     generatedAt rep = now env"
  using assms
  by (auto simp add: optimizeScript_def Let_def split: if_splits sum.splits)

lemma optimizeScript_Inl:
  assumes "truthy (req_script req)" "truthy (req_concept req)"
    and "generateOptimizations eng (scriptOf req) (allKeywordsOf req) (contentStyleOf req)
          (optimizationLevelOf req) = Inl e"
  shows "optimizeScript eng env req = Inl e"
  using assms by (simp add: optimizeScript_def Let_def)

lemma RegExp_gi_error: "RegExp_gi eng src = Inl e \<Longrightarrow> e = SyntaxError"
  by (auto simp: RegExp_gi_def split: if_splits option.splits)

lemma keywordMentions_error: "keywordMentions eng script count kws = Inl e \<Longrightarrow> e = SyntaxError"
  by (induction kws arbitrary: count) (auto split: sum.splits dest: RegExp_gi_error)

lemma generateOptimizations_error:
  "generateOptimizations eng script kws contentStyle lvl = Inl e \<Longrightarrow> e = SyntaxError"
  by (cases "keywordMentions eng script 0 kws")
     (auto simp: generateOptimizations_def Let_def dest: keywordMentions_error)

lemma push_insertions_error:
  "push_insertions eng script limit rc locs kws = Inl e \<Longrightarrow> e = SyntaxError"
  by (induction kws) (auto simp: Let_def split: sum.splits dest: RegExp_gi_error)

lemma suggestKeywordInsertions_error:
  "suggestKeywordInsertions eng script ps ss = Inl e \<Longrightarrow> e = SyntaxError"
  by (auto simp: suggestKeywordInsertions_def split: sum.splits dest: push_insertions_error)

lemma getScriptTips_error: "getScriptTips contentStyle = Inl e \<Longrightarrow> e = TypeError"
  by (auto simp: getScriptTips_def split: property.splits)

lemma optimizeScript_error:
  assumes "optimizeScript eng env req = Inl e" "truthy (req_script req)" "truthy (req_concept req)"
  shows "e = SyntaxError \<or> e = TypeError"
  using assms
  by (auto simp add: optimizeScript_def Let_def split: sum.splits
      dest: generateOptimizations_error suggestKeywordInsertions_error getScriptTips_error)

lemma validation_error_iff:
  "optimizeScript eng env req = Inl ValidationError \<longleftrightarrow>
     \<not> truthy (req_script req) \<or> \<not> truthy (req_concept req)"
  using optimizeScript_error [of eng env req ValidationError] optimizeScript_invalid [of req eng env]
  by auto

lemma push_insertions_literal:
  "list_all is_literal kws \<Longrightarrow> \<exists>r. push_insertions eng script limit rc locs kws = Inr r"
  by (induction kws) (auto simp: RegExp_gi_literal Let_def)

lemma suggestKeywordInsertions_literal:
  assumes "list_all is_literal ps" "list_all is_literal ss"
  shows "\<exists>r. suggestKeywordInsertions eng script ps ss = Inr r"
proof -
  from assms(2) have "list_all is_literal (take 3 ss)"
    by (auto simp: list_all_iff dest: in_set_takeD)
  then obtain b where b: "push_insertions eng script 1 ''1-2'' [''Body content''] (take 3 ss) = Inr b"
    using push_insertions_literal by blast
  from assms(1) obtain a where
    a: "push_insertions eng script 3 ''3-5''
          [''Opening sentence'', ''Middle of content'', ''Conclusion''] ps = Inr a"
    using push_insertions_literal by blast
  from a b show ?thesis
    by (simp add: suggestKeywordInsertions_def)
qed

lemma getScriptTips_returns:
  "contentStyle \<notin> set object_prototype_keys \<Longrightarrow> \<exists>ts. getScriptTips contentStyle = Inr ts"
  by (auto simp: getScriptTips_def get_property_def split: option.splits)

lemma optimizeScript_returns:
  assumes "truthy (req_script req)" "truthy (req_concept req)"
    and "list_all is_literal (allKeywordsOf req)"
    and "contentStyleOf req \<notin> set object_prototype_keys"
  shows "\<exists>rep. optimizeScript eng env req = Inr rep"
proof -
  from assms(3) obtain m where
    "keywordMentions eng (scriptOf req) 0 (allKeywordsOf req) = Inr m"
    using keywordMentions_literal by blast
  then obtain opts where opts:
    "generateOptimizations eng (scriptOf req) (allKeywordsOf req) (contentStyleOf req)
       (optimizationLevelOf req) = Inr opts"
    using generateOptimizations_returns by blast
  from assms(3) have "list_all is_literal (primaryKeywordsOf req)"
    and "list_all is_literal (keyword_tier secondary (req_keywords req) [])"
    by simp_all
  then obtain ins where ins:
    "suggestKeywordInsertions eng (scriptOf req) (primaryKeywordsOf req)
       (keyword_tier secondary (req_keywords req) []) = Inr ins"
    using suggestKeywordInsertions_literal by blast
  from assms(4) obtain ts where ts: "getScriptTips (contentStyleOf req) = Inr ts"
    using getScriptTips_returns by blast
  from assms(1,2) opts ins ts show ?thesis
    by (simp add: optimizeScript_def Let_def)
qed

lemma cpp_rejected: "RegExp_gi eng ''C++'' = Inl SyntaxError"
  by (simp add: RegExp_gi_def syntax_characters_def)

text \<open>
  C1: the call fails the input check exactly when the script or the concept is missing or
  empty (see the lemmas above), but a valid request can still throw. For the script
  "Learn C++ today." and the concept "C++" the Planner builds a regular expression from
  the unescaped keyword, and the call ends in a SyntaxError.
\<close>

theorem unescaped_keyword_throws:
  "optimizeScript eng env (plain_request ''Learn C++ today.'' ''C++'') = Inl SyntaxError"
proof -
  have "keywordMentions eng ''Learn C++ today.'' 0 [''C++''] = Inl SyntaxError"
    by (simp add: cpp_rejected)
  then have "generateOptimizations eng ''Learn C++ today.'' [''C++''] ''tutorial'' ''moderate'' =
      Inl SyntaxError"
    by (rule generateOptimizations_Inl)
  then show ?thesis
    by (intro optimizeScript_Inl) (simp_all add: plain_request_def truthy_def keyword_tier_def)
qed

text \<open>C1, an instance with an engine and a clock.\<close>

theorem unescaped_keyword_throws_witness:
  "optimizeScript no_engine new_year (plain_request ''Learn C++ today.'' ''C++'') = Inl SyntaxError"
  by (rule unescaped_keyword_throws)

text \<open>A content style that names a member of Object.prototype ends in a TypeError.\<close>

lemma inherited_style_throws:
  "optimizeScript eng env
     ((plain_request ''Hello world.'' ''hello'')\<lparr>req_contentStyle := Some ''constructor''\<rparr>) =
   Inl TypeError"
proof -
  have lit: "RegExp_gi eng ''hello'' = Inr (count_matches ''hello'')"
    by (simp add: RegExp_gi_def syntax_characters_def)
  then have "\<exists>m. keywordMentions eng ''Hello world.'' 0 [''hello''] = Inr m"
    by simp
  then obtain opts where
    "generateOptimizations eng ''Hello world.'' [''hello''] ''constructor'' ''moderate'' = Inr opts"
    using generateOptimizations_returns by blast
  moreover from lit have "\<exists>r. suggestKeywordInsertions eng ''Hello world.'' [''hello''] [] = Inr r"
    by (simp add: suggestKeywordInsertions_def Let_def)
  moreover have "getScriptTips ''constructor'' = Inl TypeError"
    by (simp add: getScriptTips_def get_property_def styleTips_def object_prototype_keys_def)
  ultimately show ?thesis
    by (auto simp add: optimizeScript_def Let_def plain_request_def truthy_def keyword_tier_def)
qed

lemma hasCallToAction_optimized:
  "hasCallToAction (engagementElements
     (analyzeScript (applyOptimizations rnd script optimizations primaryKeywords contentStyle) keywords))"
  using applyOptimizations_test [of rnd script optimizations primaryKeywords contentStyle]
  by (auto simp add: analyzeScript_hasCallToAction test_words_def)

text \<open>
  C9: the warnings of a returned report are computed from the metrics of the optimized
  script; that script has one of the words subscribe, like, comment, so its metrics have
  the hasCallToAction flag, and no warning is of the type missing_cta.
\<close>

theorem no_missing_cta_warning:
  assumes "optimizeScript eng env req = Inr rep"
  shows "warnings rep = generateWarnings (as_analysis (optimized rep)) \<and>
    test_words [''subscribe'', ''like'', ''comment''] (as_script (optimized rep)) \<and>
    hasCallToAction (engagementElements (as_analysis (optimized rep))) \<and>
    ''missing_cta'' \<notin> set (map w_type (warnings rep))"
proof -
  from optimizeScript_Inr [OF assms] obtain opts where
    s: "as_script (optimized rep) =
       applyOptimizations (random env) (scriptOf req) opts (primaryKeywordsOf req) (contentStyleOf req)"
    and a: "as_analysis (optimized rep) = analyzeScript (as_script (optimized rep)) (allKeywordsOf req)"
    and w: "warnings rep = generateWarnings (as_analysis (optimized rep))"
    by blast
  have t: "test_words [''subscribe'', ''like'', ''comment''] (as_script (optimized rep))"
    unfolding s by (rule applyOptimizations_test)
  have h: "hasCallToAction (engagementElements (as_analysis (optimized rep)))"
    unfolding a s by (rule hasCallToAction_optimized)
  then have "''missing_cta'' \<notin> set (map w_type (generateWarnings (as_analysis (optimized rep))))"
    by (auto simp add: generateWarnings_def)
  with w t h show ?thesis
    by simp
qed

lemma hello_request_returns:
  "\<exists>rep. optimizeScript no_engine new_year (plain_request ''Hello world.'' ''hello'') = Inr rep"
  by (rule optimizeScript_returns)
     (simp_all add: plain_request_def truthy_def keyword_tier_def syntax_characters_def
        object_prototype_keys_def)

text \<open>C9, an instance: the request with the script "Hello world." returns a report.\<close>

theorem no_missing_cta_warning_witness:
  "(case optimizeScript no_engine new_year (plain_request ''Hello world.'' ''hello'') of
      Inl e \<Rightarrow> False
    | Inr rep \<Rightarrow> ''missing_cta'' \<notin> set (map w_type (warnings rep)))"
proof -
  from hello_request_returns obtain rep where
    rep: "optimizeScript no_engine new_year (plain_request ''Hello world.'' ''hello'') = Inr rep"
    by blast
  from no_missing_cta_warning [OF rep]
  have "''missing_cta'' \<notin> set (map w_type (warnings rep))"
    by blast
  with rep show ?thesis
    by simp
qed

subsection \<open>Scripts of white space\<close>

lemma split_loop_skip_all: "split_loop m prev (length cs) piece cs = [piece]"
  by (induction cs arbitrary: prev) simp_all

lemma words_of_spaces:
  assumes "script \<noteq> []" "list_all is_space script"
  shows "js_split re_spaces script = [[], []]"
proof -
  from assms(1) obtain c cs where script: "script = c # cs"
    by (cases script) auto
  with assms(2) have "takeWhile is_space (c # cs) = c # cs"
    by (simp add: list_all_iff)
  then have "re_spaces None (c # cs) = Suc (length cs)"
    by (simp add: re_spaces_def)
  then show ?thesis
    by (simp add: script js_split_def split_loop_skip_all)
qed

lemma spaces_metrics:
  assumes "script \<noteq> []" "list_all is_space script"
  shows "wordCount (analyzeScript script keywords) = 0"
    and "keywordDensity (analyzeScript script keywords) =
      (if totalKeywordMentions (analyzeScript script keywords) = 0 then ''NaN'' else ''Infinity'')"
proof -
  show w: "wordCount (analyzeScript script keywords) = 0"
    by (simp add: analyzeScript_wordCount words_of_spaces [OF assms])
  show "keywordDensity (analyzeScript script keywords) =
      (if totalKeywordMentions (analyzeScript script keywords) = 0 then ''NaN'' else ''Infinity'')"
    by (simp add: analyzeScript_keywordDensity w)
qed

text \<open>
  C10 (as the code has it): a request with a non-empty script of white space only and a
  non-empty concept never fails the input check; a report it returns has wordCount 0 in
  its original metrics and the keywordDensity "NaN" when no keyword occurs in the script,
  "Infinity" when one does; and it returns a report whenever no keyword has a syntax
  character of regular expressions and the content style is not the name of a member of
  Object.prototype.
\<close>

theorem whitespace_script_report:
  assumes "req_script req = Some script" "script \<noteq> []" "list_all is_space script"
    and "truthy (req_concept req)"
  shows "optimizeScript eng env req \<noteq> Inl ValidationError \<and>
    (\<forall>rep. optimizeScript eng env req = Inr rep \<longrightarrow>
       wordCount (as_analysis (original rep)) = 0 \<and>
       keywordDensity (as_analysis (original rep)) =
         (if totalKeywordMentions (as_analysis (original rep)) = 0 then ''NaN'' else ''Infinity'')) \<and>
    (list_all is_literal (allKeywordsOf req) \<and> contentStyleOf req \<notin> set object_prototype_keys \<longrightarrow>
       (\<exists>rep. optimizeScript eng env req = Inr rep))"
proof (intro conjI allI impI)
  from assms have valid: "truthy (req_script req)" "truthy (req_concept req)"
    by (simp_all add: truthy_def)
  then show "optimizeScript eng env req \<noteq> Inl ValidationError"
    by (simp add: validation_error_iff)
  show "\<exists>rep. optimizeScript eng env req = Inr rep"
    if "list_all is_literal (allKeywordsOf req) \<and> contentStyleOf req \<notin> set object_prototype_keys"
    using that valid by (intro optimizeScript_returns) simp_all
next
  fix rep
  assume "optimizeScript eng env req = Inr rep"
  from optimizeScript_Inr [OF this] assms(1)
  have o: "as_analysis (original rep) = analyzeScript script (allKeywordsOf req)"
    by simp
  show "wordCount (as_analysis (original rep)) = 0"
    unfolding o by (rule spaces_metrics [OF assms(2,3)])
  show "keywordDensity (as_analysis (original rep)) =
      (if totalKeywordMentions (as_analysis (original rep)) = 0 then ''NaN'' else ''Infinity'')"
    unfolding o by (rule spaces_metrics [OF assms(2,3)])
qed

lemma spaces_request_returns:
  "\<exists>rep. optimizeScript no_engine new_year (plain_request ''   '' concept) = Inr rep"
  if "is_literal concept" "concept \<noteq> []"
  using that
  by (intro optimizeScript_returns)
     (simp_all add: plain_request_def truthy_def keyword_tier_def object_prototype_keys_def)

text \<open>C10, an instance: three spaces as the script, "x" as the concept.\<close>

theorem whitespace_script_report_witness:
  "(case optimizeScript no_engine new_year (plain_request ''   '' ''x'') of
      Inl e \<Rightarrow> False
    | Inr rep \<Rightarrow>
        wordCount (as_analysis (original rep)) = 0 \<and>
        keywordDensity (as_analysis (original rep)) = ''NaN'')"
proof -
  from spaces_request_returns [of "''x''"] obtain rep where
    rep: "optimizeScript no_engine new_year (plain_request ''   '' ''x'') = Inr rep"
    by (auto simp: syntax_characters_def)
  from optimizeScript_Inr [OF rep]
  have "as_analysis (original rep) = analyzeScript ''   '' [''x'']"
    by (simp add: plain_request_def keyword_tier_def)
  then have m: "totalKeywordMentions (as_analysis (original rep)) = 0"
    by (simp add: analyzeScript_totalKeywordMentions count_keyword_def count_matches_def
        toLowerCase_def is_capital_def)
  have "req_script (plain_request ''   '' ''x'') = Some ''   ''" "''   '' \<noteq> []"
    "list_all is_space ''   ''" "truthy (req_concept (plain_request ''   '' ''x''))"
    by (simp_all add: plain_request_def truthy_def is_space_def)
  from whitespace_script_report [OF this, of no_engine new_year] rep m show ?thesis
    by simp
qed

text \<open>
  C10 (as the spec states it) fails: for the script of three spaces and the concept of one
  space the original metrics have the keywordDensity "Infinity".
\<close>

theorem whitespace_density_infinity:
  "map_sum id (\<lambda>rep. keywordDensity (as_analysis (original rep)))
     (optimizeScript no_engine new_year (plain_request ''   '' '' '')) = Inr ''Infinity''"
proof -
  from spaces_request_returns [of "'' ''"] obtain rep where
    rep: "optimizeScript no_engine new_year (plain_request ''   '' '' '') = Inr rep"
    by (auto simp: syntax_characters_def)
  from optimizeScript_Inr [OF rep]
  have o: "as_analysis (original rep) = analyzeScript ''   '' ['' '']"
    by (simp add: plain_request_def keyword_tier_def)
  have m: "totalKeywordMentions (analyzeScript ''   '' ['' '']) = 3"
    by (simp add: analyzeScript_totalKeywordMentions count_keyword_def count_matches_def
        toLowerCase_def is_capital_def)
  have "keywordDensity (analyzeScript ''   '' ['' '']) = ''Infinity''"
    using spaces_metrics(2) [of "''   ''" "['' '']"] m by (simp add: is_space_def)
  with rep o show ?thesis
    by simp
qed

subsection \<open>What the report depends on\<close>

lemma addHook_same:
  "hookIndex r1 = hookIndex r2 \<or> \<not> hookNeeded script primaryKeyword \<Longrightarrow>
   addHook r1 primaryKeyword script = addHook r2 primaryKeyword script"
  by (auto simp: addHook_def pickHook_def)

lemma applyOptimizations_same:
  "hookIndex r1 = hookIndex r2 \<or> \<not> hookNeeded script (first primaryKeywords) \<Longrightarrow>
   applyOptimizations r1 script optimizations primaryKeywords contentStyle =
   applyOptimizations r2 script optimizations primaryKeywords contentStyle"
  by (simp add: applyOptimizations_def beforeQuestion_def addHook_same [of r1 r2])

text \<open>
  C4 (as the code has it): two calls on the same request whose hook step does not trigger
  or picks the phrase of the same index end in the same error, or return reports that are
  equal in every field but generatedAt, which holds the clock reading of each call.
\<close>

theorem report_depends_on_clock_and_hook:
  assumes "hookIndex (random env1) = hookIndex (random env2) \<or>
     \<not> hookNeeded (scriptOf req) (first (primaryKeywordsOf req))"
  shows "map_sum id (\<lambda>rep. rep\<lparr>generatedAt := []\<rparr>) (optimizeScript eng env1 req) =
         map_sum id (\<lambda>rep. rep\<lparr>generatedAt := []\<rparr>) (optimizeScript eng env2 req) \<and>
         (\<forall>rep. optimizeScript eng env1 req = Inr rep \<longrightarrow> generatedAt rep = now env1)"
proof -
  have same: "applyOptimizations (random env1) (scriptOf req) opts (primaryKeywordsOf req) st =
      applyOptimizations (random env2) (scriptOf req) opts (primaryKeywordsOf req) st" for opts st
    using assms by (rule applyOptimizations_same)
  have "map_sum id (\<lambda>rep. rep\<lparr>generatedAt := []\<rparr>) (optimizeScript eng env1 req) =
        map_sum id (\<lambda>rep. rep\<lparr>generatedAt := []\<rparr>) (optimizeScript eng env2 req)"
    by (simp add: optimizeScript_def Let_def same split: sum.splits)
  moreover have "generatedAt rep = now env1" if "optimizeScript eng env1 req = Inr rep" for rep
    using optimizeScript_Inr [OF that] by simp
  ultimately show ?thesis
    by blast
qed

text \<open>
  C4, an instance: the hook step does not trigger for "Hello world.", so two calls with
  different random numbers at different times agree outside generatedAt.
\<close>

theorem report_depends_on_clock_and_hook_witness:
  "map_sum id (\<lambda>rep. rep\<lparr>generatedAt := []\<rparr>)
     (optimizeScript no_engine \<lparr>now = ''2024-01-01T00:00:00.000Z'', random = 0.1\<rparr>
        (plain_request ''Hello world.'' ''hello'')) =
   map_sum id (\<lambda>rep. rep\<lparr>generatedAt := []\<rparr>)
     (optimizeScript no_engine \<lparr>now = ''2024-06-30T12:00:00.000Z'', random = 0.9\<rparr>
        (plain_request ''Hello world.'' ''hello''))"
proof -
  have "\<not> hookNeeded ''Hello world.'' (Some ''hello'')"
    by (simp add: hookNeeded_def first_def split_defs)
  then have "hookIndex (random \<lparr>now = ''2024-01-01T00:00:00.000Z'', random = 0.1\<rparr>) =
      hookIndex (random \<lparr>now = ''2024-06-30T12:00:00.000Z'', random = 0.9\<rparr>) \<or>
     \<not> hookNeeded (scriptOf (plain_request ''Hello world.'' ''hello''))
         (first (primaryKeywordsOf (plain_request ''Hello world.'' ''hello'')))"
    by (simp add: plain_request_def keyword_tier_def first_def)
  from report_depends_on_clock_and_hook [OF this] show ?thesis
    by blast
qed

text \<open>
  C4 (as the spec states it) fails: two calls on the same request, with the same random
  number, at different times return different reports.
\<close>

theorem reports_differ_by_clock:
  "optimizeScript no_engine \<lparr>now = ''2024-01-01T00:00:00.000Z'', random = 0\<rparr>
     (plain_request ''Hello world.'' ''hello'') \<noteq>
   optimizeScript no_engine \<lparr>now = ''2024-01-01T00:00:00.001Z'', random = 0\<rparr>
     (plain_request ''Hello world.'' ''hello'')"
proof
  assume eq: "optimizeScript no_engine \<lparr>now = ''2024-01-01T00:00:00.000Z'', random = 0\<rparr>
     (plain_request ''Hello world.'' ''hello'') =
   optimizeScript no_engine \<lparr>now = ''2024-01-01T00:00:00.001Z'', random = 0\<rparr>
     (plain_request ''Hello world.'' ''hello'')"
  have "\<exists>rep. optimizeScript no_engine \<lparr>now = ''2024-01-01T00:00:00.000Z'', random = 0\<rparr>
     (plain_request ''Hello world.'' ''hello'') = Inr rep"
    by (rule optimizeScript_returns)
       (simp_all add: plain_request_def truthy_def keyword_tier_def syntax_characters_def
          object_prototype_keys_def)
  then obtain rep where
    r1: "optimizeScript no_engine \<lparr>now = ''2024-01-01T00:00:00.000Z'', random = 0\<rparr>
     (plain_request ''Hello world.'' ''hello'') = Inr rep"
    by blast
  with eq have
    r2: "optimizeScript no_engine \<lparr>now = ''2024-01-01T00:00:00.001Z'', random = 0\<rparr>
     (plain_request ''Hello world.'' ''hello'') = Inr rep"
    by simp
  from optimizeScript_Inr [OF r1] optimizeScript_Inr [OF r2]
  have "''2024-01-01T00:00:00.000Z'' = ''2024-01-01T00:00:00.001Z''"
    by simp
  then show False
    by simp
qed

end
